theory Spec2Isabelle
  imports Main
begin

section \<open>Python string primitives used by the assistant\<close>

text \<open>
  The assistant (\<^verbatim>\<open>src/chap 1/main.py\<close>) works on Python \<^verbatim>\<open>str\<close> values. They are
  modelled as \<^typ>\<open>string\<close>; a \<^typ>\<open>char\<close> stands for the code point of the same number
  (U+0000 to U+00FF), so that \<^verbatim>\<open>len\<close>, slicing and \<^verbatim>\<open>startswith\<close> count what Python
  counts. Code points beyond U+00FF are outside the model.
\<close>

text \<open>\<^verbatim>\<open>str.isspace\<close> on one character; \<^verbatim>\<open>strip()\<close> and \<^verbatim>\<open>split()\<close> use the same test.\<close>

definition isspace :: "char \<Rightarrow> bool" where
  "isspace c = (of_char c \<in> {9::nat, 10, 11, 12, 13, 28, 29, 30, 31, 32, 133, 160})"

text \<open>\<^verbatim>\<open>str.isdigit\<close> on one character: the ASCII digits and the superscripts 2, 3 and 1.\<close>

definition isdigit :: "char \<Rightarrow> bool" where
  "isdigit c = ((48 \<le> (of_char c :: nat) \<and> (of_char c :: nat) \<le> 57)
                \<or> of_char c \<in> {178::nat, 179, 185})"

text \<open>
  \<^verbatim>\<open>str.lower\<close> on one character: each upper-case letter with its lower-case letter,
  A to Z first, then U+00C0 to U+00DE without the multiplication sign U+00D7. Every
  other character below U+0100 is left as it is.
\<close>

definition lower_table :: "(char \<times> char) list" where
  "lower_table =
     zip ''ABCDEFGHIJKLMNOPQRSTUVWXYZ'' ''abcdefghijklmnopqrstuvwxyz'' @
     zip [CHR 0xC0, CHR 0xC1, CHR 0xC2, CHR 0xC3, CHR 0xC4, CHR 0xC5, CHR 0xC6, CHR 0xC7,
        CHR 0xC8, CHR 0xC9, CHR 0xCA, CHR 0xCB, CHR 0xCC, CHR 0xCD, CHR 0xCE, CHR 0xCF,
        CHR 0xD0, CHR 0xD1, CHR 0xD2, CHR 0xD3, CHR 0xD4, CHR 0xD5, CHR 0xD6, CHR 0xD8,
        CHR 0xD9, CHR 0xDA, CHR 0xDB, CHR 0xDC, CHR 0xDD, CHR 0xDE]
       [CHR 0xE0, CHR 0xE1, CHR 0xE2, CHR 0xE3, CHR 0xE4, CHR 0xE5, CHR 0xE6, CHR 0xE7,
        CHR 0xE8, CHR 0xE9, CHR 0xEA, CHR 0xEB, CHR 0xEC, CHR 0xED, CHR 0xEE, CHR 0xEF,
        CHR 0xF0, CHR 0xF1, CHR 0xF2, CHR 0xF3, CHR 0xF4, CHR 0xF5, CHR 0xF6, CHR 0xF8,
        CHR 0xF9, CHR 0xFA, CHR 0xFB, CHR 0xFC, CHR 0xFD, CHR 0xFE]"

definition lower_char :: "char \<Rightarrow> char" where
  "lower_char c = (case map_of lower_table c of Some l \<Rightarrow> l | None \<Rightarrow> c)"

definition lower :: "string \<Rightarrow> string" where
  "lower s = map lower_char s"

text \<open>\<^verbatim>\<open>s.strip()\<close>: white space removed at both ends.\<close>

definition strip :: "string \<Rightarrow> string" where
  "strip s = rev (dropWhile isspace (rev (dropWhile isspace s)))"

text \<open>\<^verbatim>\<open>s.startswith(p)\<close> and \<^verbatim>\<open>p in s\<close>.\<close>

definition startswith :: "string \<Rightarrow> string \<Rightarrow> bool" where
  "startswith s p = (take (length p) s = p)"

fun contains :: "string \<Rightarrow> string \<Rightarrow> bool" where
  "contains [] p = (p = [])"
| "contains (c # s) p = (startswith (c # s) p \<or> contains s p)"

text \<open>
  \<^verbatim>\<open>s.split()\<close>: the maximal runs of characters that are not white space. The first
  argument is the run being read.
\<close>

fun split_acc :: "string \<Rightarrow> string \<Rightarrow> string list" where
  "split_acc cur [] = (if cur = [] then [] else [cur])"
| "split_acc cur (c # s) =
     (if isspace c then (if cur = [] then split_acc [] s else cur # split_acc [] s)
      else split_acc (cur @ [c]) s)"

definition split_ws :: "string \<Rightarrow> string list" where
  "split_ws s = split_acc [] s"

text \<open>
  \<^verbatim>\<open>s.replace(old, new)\<close>: the occurrences of \<open>old\<close> are found from the left and do not
  overlap; the search goes on after the end of each occurrence. With an empty \<open>old\<close>,
  Python puts \<open>new\<close> before every character and at the end.
\<close>

fun replace_str :: "string \<Rightarrow> string \<Rightarrow> string \<Rightarrow> string" where
  "replace_str [] new s = new @ concat (map (\<lambda>c. c # new) s)"
| "replace_str (a # old) new [] = []"
| "replace_str (a # old) new (c # s) =
     (if startswith (c # s) (a # old)
      then new @ replace_str (a # old) new (drop (length old) s)
      else c # replace_str (a # old) new s)"

section \<open>Spoken operators (\<^verbatim>\<open>handle_user_command\<close>, lines 246 to 262)\<close>

text \<open>
  The dictionary \<^verbatim>\<open>replacements\<close>, in the order in which the source inserts its keys;
  the loop \<^verbatim>\<open>for k, v in replacements.items()\<close> visits them in that order.
\<close>

definition replacements :: "(string \<times> string) list" where
  "replacements =
     [('' plus '', '' + ''),
      ('' minus '', '' - ''),
      ('' times '', '' * ''),
      ('' multiplied by '', '' * ''),
      ('' divided by '', '' / ''),
      ('' over '', '' / ''),
      ('' mod '', '' % ''),
      ('' modulo '', '' % ''),
      ('' to the power of '', ''**''),
      ('' power of '', ''**'')]"

text \<open>
  Lines 259 to 262: the expression is padded with one space on each side, every
  replacement is applied in turn, and the result is stripped. The source names the result
  \<^verbatim>\<open>expr_for_eval\<close>; the specification calls the step \<open>normalize\<close>.
\<close>

definition expr_for_eval :: "string \<Rightarrow> string" where
  "expr_for_eval expr =
     strip (foldl (\<lambda>e (k, v). replace_str k v e) ('' '' @ expr @ '' '') replacements)"

text \<open>
  The replacement table in the order of the specification (section 4.1), and the
  normalizer that the specification describes. It is used only to compare the two orders.
\<close>

definition replacements_spec :: "(string \<times> string) list" where
  "replacements_spec =
     [('' multiplied by '', '' * ''),
      ('' divided by '', '' / ''),
      ('' to the power of '', ''**''),
      ('' power of '', ''**''),
      ('' plus '', '' + ''),
      ('' minus '', '' - ''),
      ('' times '', '' * ''),
      ('' over '', '' / ''),
      ('' modulo '', '' % ''),
      ('' mod '', '' % '')]"

definition normalize_spec :: "string \<Rightarrow> string" where
  "normalize_spec expr =
     strip (foldl (\<lambda>e (k, v). replace_str k v e) ('' '' @ expr @ '' '') replacements_spec)"

text \<open>Line 265: the characters that the handler lets through to \<^verbatim>\<open>safe_eval\<close>.\<close>

definition allowed_chars :: "char set" where
  "allowed_chars = set ''0123456789+-*/(). %''"

section \<open>Numbers, exceptions and the syntax tree\<close>

text \<open>
  A Python number as \<^verbatim>\<open>_eval\<close> can return it. Python's \<^verbatim>\<open>int\<close> is unbounded; \<^verbatim>\<open>bool\<close>
  is a subclass of \<^verbatim>\<open>int\<close>. The type \<open>'f\<close> stands for the numbers that are not
  integers (\<^verbatim>\<open>float\<close>, and \<^verbatim>\<open>complex\<close> as a result of \<^verbatim>\<open>**\<close>); their arithmetic is the
  platform's and is a parameter of the model.
\<close>

datatype 'f pynum = IntV int | BoolV bool | FloatV 'f

text \<open>The messages of the \<^verbatim>\<open>ValueError\<close>s that \<^verbatim>\<open>safe_eval\<close> raises, in source order.\<close>

datatype value_error =
    EmptyExpression
  | InvalidExpressionSyntax
  | OnlyNumericConstants
  | OperatorNotAllowed
  | UnaryOperatorNotAllowed
  | DisallowedElements

text \<open>
  The exceptions that can leave \<^verbatim>\<open>safe_eval\<close>. All of them are subclasses of
  \<^verbatim>\<open>Exception\<close>. \<open>OtherException\<close> is any other one that the arithmetic on \<open>'f\<close> raises
  (\<^verbatim>\<open>TypeError\<close> for \<^verbatim>\<open>%\<close> on a complex number, for instance).
\<close>

datatype exn = ValueError value_error | ZeroDivisionError | OverflowError | OtherException

text \<open>
  The classes of \<^verbatim>\<open>ast.operator\<close> and \<^verbatim>\<open>ast.unaryop\<close> that \<^verbatim>\<open>_eval\<close> tells apart;
  \<open>OtherOperator\<close> and \<open>OtherUnaryOp\<close> are the remaining classes (\<^verbatim>\<open>MatMult\<close>,
  \<^verbatim>\<open>LShift\<close>, \<^verbatim>\<open>Invert\<close>, \<^verbatim>\<open>Not\<close> and so on).
\<close>

datatype operator = Add | Sub | Mult | Div | Pow_op | Mod | FloorDiv | OtherOperator

datatype unaryop = USub | UAdd | OtherUnaryOp

text \<open>
  The value of an \<^verbatim>\<open>ast.Constant\<close>: a number, or anything else (\<^verbatim>\<open>Ellipsis\<close>, a string,
  \<^verbatim>\<open>None\<close>, a complex literal).
\<close>

datatype 'f const_value = Num "'f pynum" | NonNumeric

text \<open>
  The body of the \<^verbatim>\<open>ast.Expression\<close> that \<^verbatim>\<open>ast.parse(expr, mode="eval")\<close> returns.
  \<open>OtherNode\<close> is a node of any class that \<^verbatim>\<open>_eval\<close> has no branch for (\<^verbatim>\<open>Call\<close>,
  \<^verbatim>\<open>Tuple\<close>, \<^verbatim>\<open>Name\<close>, \<^verbatim>\<open>Compare\<close> and so on); \<^verbatim>\<open>_eval\<close> never looks inside one.
\<close>

datatype 'f pyast =
    Constant "'f const_value"
  | BinOp "'f pyast" operator "'f pyast"
  | UnaryOp unaryop "'f pyast"
  | OtherNode

text \<open>
  What the model takes from the Python runtime instead of defining it:
  \<^item> \<open>parse_other\<close>: \<^verbatim>\<open>ast.parse(s, mode="eval")\<close> on a text with a character outside
    \<^verbatim>\<open>0123456789+-*/(). %\<close>; \<open>None\<close> when it raises;
  \<^item> \<open>float_literal\<close>: the value of a literal with a decimal point;
  \<^item> \<open>float_binop\<close>: an operator of \<^verbatim>\<open>ALLOWED_OPERATORS\<close> on two numbers when the result
    is not decided by integer arithmetic (an operand in \<open>'f\<close>, \<^verbatim>\<open>/\<close> on integers with a
    divisor other than zero, \<^verbatim>\<open>**\<close> with a negative integer exponent and a base other
    than zero);
  \<^item> \<open>float_neg\<close>: \<^verbatim>\<open>operator.neg\<close> on a number in \<open>'f\<close>;
  \<^item> \<open>float_str\<close>: what \<^verbatim>\<open>prettify_number\<close> returns for a number in \<open>'f\<close>.
\<close>

record 'f pyrt =
  parse_other :: "string \<Rightarrow> 'f pyast option"
  float_literal :: "string \<Rightarrow> 'f"
  float_binop :: "operator \<Rightarrow> 'f pynum \<Rightarrow> 'f pynum \<Rightarrow> exn + 'f pynum"
  float_neg :: "'f \<Rightarrow> 'f"
  float_str :: "'f \<Rightarrow> string"

section \<open>\<^verbatim>\<open>ast.parse\<close> on the characters that the handler lets through\<close>

text \<open>
  \<^verbatim>\<open>ast.parse\<close> belongs to CPython, not to the repository. On a text over the alphabet
  \<^verbatim>\<open>0123456789+-*/(). %\<close> it is modelled here as CPython 3.8 to 3.13 behaves: the
  tokenizer, then the expression grammar restricted to the tokens that this alphabet can
  form. Limits on resources (nesting depth, length of a literal, memory) are not
  modelled.
\<close>

datatype tok =
    NUMBER_INT string
  | NUMBER_FLOAT string
  | ELLIPSIS
  | DOT
  | PLUS
  | MINUS
  | STAR
  | SLASH
  | PERCENT
  | DOUBLESTAR
  | DOUBLESLASH
  | LPAR
  | RPAR

definition is_dec :: "char \<Rightarrow> bool" where
  "is_dec c = (c \<in> set ''0123456789'')"

text \<open>
  An integer literal that starts with \<^verbatim>\<open>0\<close> may hold no other digit than \<^verbatim>\<open>0\<close>
  (\<^verbatim>\<open>00\<close> is accepted, \<^verbatim>\<open>01\<close> is a syntax error).
\<close>

definition leading_zero :: "string \<Rightarrow> bool" where
  "leading_zero ds = (take 1 ds = ''0'' \<and> (\<exists>d \<in> set ds. d \<noteq> CHR ''0''))"

text \<open>
  The tokenizer. A number is a run of digits, with an optional point and a further run of
  digits, or a point followed by a run of digits; three points are the token \<^verbatim>\<open>...\<close>; any
  other point is the token \<^verbatim>\<open>.\<close>, which no rule of the grammar accepts here. \<open>None\<close> is a
  syntax error, or a character outside the alphabet.
\<close>

function tokenize :: "string \<Rightarrow> tok list option" where
  "tokenize [] = Some []"
| "tokenize (c # s) =
     (if c = CHR '' '' then tokenize s
      else if is_dec c then
        (let ds = takeWhile is_dec (c # s); r = dropWhile is_dec (c # s)
         in if take 1 r = ''.''
            then map_option
                   (Cons (NUMBER_FLOAT (ds @ ''.'' @ takeWhile is_dec (drop 1 r))))
                   (tokenize (dropWhile is_dec (drop 1 r)))
            else if leading_zero ds then None
            else map_option (Cons (NUMBER_INT ds)) (tokenize r))
      else if c = CHR ''.'' then
        (if take 1 s \<noteq> [] \<and> is_dec (hd s)
         then map_option (Cons (NUMBER_FLOAT (''.'' @ takeWhile is_dec s)))
                (tokenize (dropWhile is_dec s))
         else if take 2 s = ''..'' then map_option (Cons ELLIPSIS) (tokenize (drop 2 s))
         else map_option (Cons DOT) (tokenize s))
      else if c = CHR ''*'' then
        (if take 1 s = ''*'' then map_option (Cons DOUBLESTAR) (tokenize (drop 1 s))
         else map_option (Cons STAR) (tokenize s))
      else if c = CHR ''/'' then
        (if take 1 s = ''/'' then map_option (Cons DOUBLESLASH) (tokenize (drop 1 s))
         else map_option (Cons SLASH) (tokenize s))
      else if c = CHR ''+'' then map_option (Cons PLUS) (tokenize s)
      else if c = CHR ''-'' then map_option (Cons MINUS) (tokenize s)
      else if c = CHR ''%'' then map_option (Cons PERCENT) (tokenize s)
      else if c = CHR ''('' then map_option (Cons LPAR) (tokenize s)
      else if c = CHR '')'' then map_option (Cons RPAR) (tokenize s)
      else None)"
  by pat_completeness auto
termination
  apply (relation "measure length")
   apply (auto simp: less_Suc_eq_le intro: le_trans [OF length_dropWhile_le])
  subgoal for c s
    using length_dropWhile_le [of is_dec "drop (Suc 0) (dropWhile is_dec s)"]
      length_dropWhile_le [of is_dec s]
    by simp
  done

text \<open>The value of a run of decimal digits.\<close>

definition digit_val :: "char \<Rightarrow> int" where
  "digit_val c = of_char c - 48"

definition int_of_dec :: "string \<Rightarrow> int" where
  "int_of_dec ds = foldl (\<lambda>n c. 10 * n + digit_val c) 0 ds"

text \<open>The operator tokens of the rules \<^verbatim>\<open>sum\<close> and \<^verbatim>\<open>term\<close> of the grammar.\<close>

definition sum_op :: "tok \<Rightarrow> operator option" where
  "sum_op t = (if t = PLUS then Some Add else if t = MINUS then Some Sub else None)"

definition term_op :: "tok \<Rightarrow> operator option" where
  "term_op t =
     (if t = STAR then Some Mult
      else if t = SLASH then Some Div
      else if t = DOUBLESLASH then Some FloorDiv
      else if t = PERCENT then Some Mod
      else None)"

text \<open>
  The expression grammar of Python, for these tokens:
  \<^verbatim>\<open>
  sum:      sum ('+' | '-') term | term
  term:     term ('*' | '/' | '//' | '%') factor | factor
  factor:   ('+' | '-') factor | power
  power:    primary '**' factor | primary
  primary:  primary '(' [argument] ')' | atom
  atom:     NUMBER | '...' | '(' ')' | '(' sum ')'
  argument: sum | '*' sum | '**' sum
  \<close>
  The rules of the recursive-descent parser. The left-recursive rules are loops
  (\<open>SumTail\<close>, \<open>TermTail\<close>, \<open>Trailers\<close>) that carry the tree built so far.
\<close>

datatype 'f rule =
    Sum
  | SumTail "'f pyast"
  | Term
  | TermTail "'f pyast"
  | Factor
  | Power
  | Primary
  | Trailers "'f pyast"
  | Atom

text \<open>The order in which the rules call one another on the same tokens.\<close>

fun rank :: "'f rule \<Rightarrow> nat" where
  "rank Sum = 5"
| "rank Term = 4"
| "rank Factor = 3"
| "rank Power = 2"
| "rank Primary = 1"
| "rank _ = 0"

text \<open>
  \<open>parse fl rule ts\<close> returns the tree and the tokens that remain, or \<open>None\<close> for a syntax
  error; \<open>fl\<close> gives the value of a literal with a decimal point. A call and the empty
  tuple are nodes that \<^verbatim>\<open>_eval\<close> rejects whole, hence \<^const>\<open>OtherNode\<close>. The tests
  \<open>length r < length ts\<close> make the recursion well-founded; each of them compares the
  tokens that a rule has left with the tokens that it was given, after the rule has read
  at least one token.
\<close>

function parse :: "(string \<Rightarrow> 'f) \<Rightarrow> 'f rule \<Rightarrow> tok list \<Rightarrow> ('f pyast \<times> tok list) option"
where
  "parse fl Sum ts =
     (case parse fl Term ts of
        None \<Rightarrow> None
      | Some (l, r) \<Rightarrow> if length r < length ts then parse fl (SumTail l) r else None)"
| "parse fl (SumTail l) [] = Some (l, [])"
| "parse fl (SumTail l) (t # ts) =
     (case sum_op t of
        None \<Rightarrow> Some (l, t # ts)
      | Some oper \<Rightarrow>
          (case parse fl Term ts of
             None \<Rightarrow> None
           | Some (x, r) \<Rightarrow>
               if length r < length ts then parse fl (SumTail (BinOp l oper x)) r
               else None))"
| "parse fl Term ts =
     (case parse fl Factor ts of
        None \<Rightarrow> None
      | Some (l, r) \<Rightarrow> if length r < length ts then parse fl (TermTail l) r else None)"
| "parse fl (TermTail l) [] = Some (l, [])"
| "parse fl (TermTail l) (t # ts) =
     (case term_op t of
        None \<Rightarrow> Some (l, t # ts)
      | Some oper \<Rightarrow>
          (case parse fl Factor ts of
             None \<Rightarrow> None
           | Some (x, r) \<Rightarrow>
               if length r < length ts then parse fl (TermTail (BinOp l oper x)) r
               else None))"
| "parse fl Factor [] = None"
| "parse fl Factor (t # ts) =
     (if t = PLUS then map_option (\<lambda>(x, r). (UnaryOp UAdd x, r)) (parse fl Factor ts)
      else if t = MINUS then map_option (\<lambda>(x, r). (UnaryOp USub x, r)) (parse fl Factor ts)
      else parse fl Power (t # ts))"
| "parse fl Power ts =
     (case parse fl Primary ts of
        None \<Rightarrow> None
      | Some (b, r) \<Rightarrow>
          (case r of
             [] \<Rightarrow> Some (b, r)
           | t # r' \<Rightarrow>
               if t = DOUBLESTAR
               then (if length r' < length ts
                     then map_option (\<lambda>(e, r''). (BinOp b Pow_op e, r'')) (parse fl Factor r')
                     else None)
               else Some (b, r)))"
| "parse fl Primary ts =
     (case parse fl Atom ts of
        None \<Rightarrow> None
      | Some (a, r) \<Rightarrow> if length r < length ts then parse fl (Trailers a) r else None)"
| "parse fl (Trailers a) [] = Some (a, [])"
| "parse fl (Trailers a) (t # ts) =
     (if t \<noteq> LPAR then Some (a, t # ts)
      else
        (case ts of
           [] \<Rightarrow> None
         | u # us \<Rightarrow>
             if u = RPAR then parse fl (Trailers OtherNode) us
             else
               (case parse fl Sum (if u = STAR \<or> u = DOUBLESTAR then us else ts) of
                  None \<Rightarrow> None
                | Some (e, r) \<Rightarrow>
                    (case r of
                       [] \<Rightarrow> None
                     | v # r' \<Rightarrow>
                         if v = RPAR \<and> length r' < length ts
                         then parse fl (Trailers OtherNode) r'
                         else None))))"
| "parse fl Atom [] = None"
| "parse fl Atom (t # ts) =
     (case t of
        NUMBER_INT ds \<Rightarrow> Some (Constant (Num (IntV (int_of_dec ds))), ts)
      | NUMBER_FLOAT x \<Rightarrow> Some (Constant (Num (FloatV (fl x))), ts)
      | ELLIPSIS \<Rightarrow> Some (Constant NonNumeric, ts)
      | LPAR \<Rightarrow>
          (case ts of
             [] \<Rightarrow> None
           | u # us \<Rightarrow>
               if u = RPAR then Some (OtherNode, us)
               else
                 (case parse fl Sum ts of
                    None \<Rightarrow> None
                  | Some (e, r) \<Rightarrow>
                      (case r of
                         [] \<Rightarrow> None
                       | v # r' \<Rightarrow> if v = RPAR then Some (e, r') else None)))
      | _ \<Rightarrow> None)"
  by pat_completeness auto
termination
  by (relation "measures [\<lambda>(fl, r, ts). length ts, \<lambda>(fl, r, ts). rank r]") auto

text \<open>\<^verbatim>\<open>eval_input\<close>: one expression, then the end of the text.\<close>

definition parse_expression :: "(string \<Rightarrow> 'f) \<Rightarrow> tok list \<Rightarrow> 'f pyast option" where
  "parse_expression fl ts =
     (case parse fl Sum ts of
        None \<Rightarrow> None
      | Some (e, r) \<Rightarrow> if r = [] then Some e else None)"

text \<open>
  \<^verbatim>\<open>ast.parse(s, mode="eval")\<close>, with \<open>None\<close> for an exception. A text that starts with a
  space is an \<^verbatim>\<open>IndentationError\<close>; \<^verbatim>\<open>safe_eval\<close> strips the text first.
\<close>

definition ast_parse :: "'f pyrt \<Rightarrow> string \<Rightarrow> 'f pyast option" where
  "ast_parse R s =
     (if set s \<subseteq> allowed_chars
      then (if take 1 s = '' '' then None
            else case tokenize s of
                   None \<Rightarrow> None
                 | Some ts \<Rightarrow> parse_expression (float_literal R) ts)
      else parse_other R s)"

section \<open>The evaluator (\<^verbatim>\<open>safe_eval\<close>, lines 86 to 135)\<close>

text \<open>
  The keys of \<^verbatim>\<open>ALLOWED_OPERATORS\<close> (lines 86 to 95), for the test
  \<^verbatim>\<open>op_type in ALLOWED_OPERATORS\<close>; \<^verbatim>\<open>ast.Pow\<close> is \<^const>\<open>Pow_op\<close> here.
\<close>

definition allowed_operator :: "operator \<Rightarrow> bool" where
  "allowed_operator oper = (oper \<in> {Add, Sub, Mult, Div, Pow_op, Mod})"

definition allowed_unaryop :: "unaryop \<Rightarrow> bool" where
  "allowed_unaryop oper = (oper \<in> {USub, UAdd})"

text \<open>The integer that an \<^verbatim>\<open>int\<close> or a \<^verbatim>\<open>bool\<close> stands for in arithmetic.\<close>

fun as_int :: "'f pynum \<Rightarrow> int option" where
  "as_int (IntV n) = Some n"
| "as_int (BoolV b) = Some (if b then 1 else 0)"
| "as_int (FloatV x) = None"

text \<open>
  \<^verbatim>\<open>ALLOWED_OPERATORS[op_type](left, right)\<close> for a binary operator of the table. On two
  integers, \<^verbatim>\<open>operator.add\<close>, \<^verbatim>\<open>sub\<close> and \<^verbatim>\<open>mul\<close> are exact; \<^verbatim>\<open>operator.mod\<close> takes the
  sign of the divisor, as \<open>mod\<close> on \<^typ>\<open>int\<close> does, and raises \<^verbatim>\<open>ZeroDivisionError\<close> on a
  zero divisor; so does \<^verbatim>\<open>operator.truediv\<close>, whose quotient is a \<^verbatim>\<open>float\<close> otherwise;
  \<^verbatim>\<open>operator.pow\<close> is exact for an exponent that is not negative, raises
  \<^verbatim>\<open>ZeroDivisionError\<close> for zero to a negative power, and gives a \<^verbatim>\<open>float\<close> otherwise.
\<close>

definition apply_binop ::
  "'f pyrt \<Rightarrow> operator \<Rightarrow> 'f pynum \<Rightarrow> 'f pynum \<Rightarrow> exn + 'f pynum" where
  "apply_binop R oper left right =
     (case (as_int left, as_int right) of
        (Some a, Some b) \<Rightarrow>
          (if oper = Add then Inr (IntV (a + b))
           else if oper = Sub then Inr (IntV (a - b))
           else if oper = Mult then Inr (IntV (a * b))
           else if oper = Mod then
             (if b = 0 then Inl ZeroDivisionError else Inr (IntV (a mod b)))
           else if oper = Div then
             (if b = 0 then Inl ZeroDivisionError else float_binop R oper left right)
           else if 0 \<le> b then Inr (IntV (a ^ nat b))
           else if a = 0 then Inl ZeroDivisionError
           else float_binop R oper left right)
      | _ \<Rightarrow> float_binop R oper left right)"

text \<open>\<^verbatim>\<open>operator.neg\<close> and \<^verbatim>\<open>operator.pos\<close>; on a \<^verbatim>\<open>bool\<close> both return an \<^verbatim>\<open>int\<close>.\<close>

definition apply_unaryop :: "'f pyrt \<Rightarrow> unaryop \<Rightarrow> 'f pynum \<Rightarrow> exn + 'f pynum" where
  "apply_unaryop R oper operand =
     (case as_int operand of
        Some a \<Rightarrow> Inr (IntV (if oper = USub then - a else a))
      | None \<Rightarrow>
          (case operand of
             FloatV x \<Rightarrow> Inr (FloatV (if oper = USub then float_neg R x else x))
           | _ \<Rightarrow> Inr operand))"

text \<open>
  The inner function \<^verbatim>\<open>_eval\<close> (lines 111 to 133) on the body of the parsed expression.
  The branch for \<^verbatim>\<open>ast.Num\<close> (line 118) is never taken: since Python 3.8 a number is an
  \<^verbatim>\<open>ast.Constant\<close>, which the branch before it returns. The operands are evaluated before
  the operator is looked up, the left one first.
\<close>

fun eval_node :: "'f pyrt \<Rightarrow> 'f pyast \<Rightarrow> exn + 'f pynum" where
  "eval_node R (Constant (Num v)) = Inr v"
| "eval_node R (Constant NonNumeric) = Inl (ValueError OnlyNumericConstants)"
| "eval_node R (BinOp l oper r) =
     (case eval_node R l of
        Inl e \<Rightarrow> Inl e
      | Inr left \<Rightarrow>
          (case eval_node R r of
             Inl e \<Rightarrow> Inl e
           | Inr right \<Rightarrow>
               if allowed_operator oper then apply_binop R oper left right
               else Inl (ValueError OperatorNotAllowed)))"
| "eval_node R (UnaryOp oper x) =
     (case eval_node R x of
        Inl e \<Rightarrow> Inl e
      | Inr operand \<Rightarrow>
          if allowed_unaryop oper then apply_unaryop R oper operand
          else Inl (ValueError UnaryOperatorNotAllowed))"
| "eval_node R OtherNode = Inl (ValueError DisallowedElements)"

text \<open>
  \<^verbatim>\<open>safe_eval\<close> (lines 97 to 135): commas are removed, the text is stripped, an empty
  text is refused, any exception of \<^verbatim>\<open>ast.parse\<close> becomes the \<^verbatim>\<open>ValueError\<close> of line 109,
  and the tree is evaluated. An exception is the \<open>Inl\<close> of the result.
\<close>

definition safe_eval :: "'f pyrt \<Rightarrow> string \<Rightarrow> exn + 'f pynum" where
  "safe_eval R expr0 =
     (let expr = strip (replace_str '','' '''' expr0)
      in if expr = [] then Inl (ValueError EmptyExpression)
         else case ast_parse R expr of
                None \<Rightarrow> Inl (ValueError InvalidExpressionSyntax)
              | Some node \<Rightarrow> eval_node R node)"

section \<open>Natural language helpers (lines 189 to 206)\<close>

text \<open>\<^verbatim>\<open>str(n)\<close> for an integer: its decimal digits, with a minus sign when negative.\<close>

definition digit_char :: "nat \<Rightarrow> char" where
  "digit_char d = ''0123456789'' ! d"

function str_nat :: "nat \<Rightarrow> string" where
  "str_nat n = (if n < 10 then [digit_char n] else str_nat (n div 10) @ [digit_char (n mod 10)])"
  by pat_completeness auto
termination
  by (relation "measure id") auto

definition str_int :: "int \<Rightarrow> string" where
  "str_int i = (if i < 0 then ''-'' @ str_nat (nat (- i)) else str_nat (nat i))"

text \<open>
  \<^verbatim>\<open>prettify_number\<close> (lines 189 to 193): an \<^verbatim>\<open>int\<close> or a \<^verbatim>\<open>bool\<close> is not a \<^verbatim>\<open>float\<close>, so
  \<^verbatim>\<open>str(value)\<close> is returned.
\<close>

definition prettify_number :: "'f pyrt \<Rightarrow> 'f pynum \<Rightarrow> string" where
  "prettify_number R v =
     (case v of
        IntV n \<Rightarrow> str_int n
      | BoolV b \<Rightarrow> (if b then ''True'' else ''False'')
      | FloatV x \<Rightarrow> float_str R x)"

text \<open>
  \<^verbatim>\<open>is_probably_arithmetic\<close> (lines 195 to 206): a digit, or one of the operator words or
  symbols, anywhere in the lower-cased text.
\<close>

definition operators :: "string list" where
  "operators = [''+'', ''-'', ''*'', ''/'', ''%'', ''plus'', ''minus'', ''times'', ''divided'',
     ''divide'', ''over'', ''mod'', ''power'', ''**'']"

definition is_probably_arithmetic :: "string \<Rightarrow> bool" where
  "is_probably_arithmetic text =
     (let tokenized = lower text
      in if list_ex isdigit tokenized then True
         else if list_ex (contains tokenized) operators then True
         else False)"

section \<open>Command handling (\<^verbatim>\<open>handle_user_command\<close>, lines 211 to 307)\<close>

text \<open>
  What the assistant says. Each constructor is one call of \<^verbatim>\<open>speak\<close> in the source, with
  the text that the call interpolates:
  \<^item> \<open>DidntCatchPlease\<close>: "I didn't catch that. Could you say it again, please?" (line 217);
  \<^item> \<open>Goodbye\<close>: "Okay, I'll be here if you need me. Goodbye!" (line 224);
  \<^item> \<open>OpeningYouTube\<close>, \<open>OpeningGoogle\<close>: "Opening YouTube for you." and "Opening Google
    for you." (lines 229 and 233);
  \<^item> \<open>ResultIs pretty\<close>: "The result is" and the number (line 270);
  \<^item> \<open>WhatToDefine\<close>: "What would you like me to define?" (line 287);
  \<^item> \<open>SearchingFor term\<close>: "Searching for", the term, "here's what I found." (line 289);
  \<^item> \<open>Definition_text defn\<close>: the definition that the lookup returned (lines 292 and 302);
  \<^item> \<open>CouldntFindDefinition\<close>: "I couldn't find a short definition. Would you like me to
    open a web search for that?" (line 294);
  \<^item> \<open>SorryOptions\<close>: "Sorry, I didn't quite understand. You can ask me to calculate
    something ... What would you like to do?" (line 306);
  \<^item> \<open>LookingUp term\<close>: "Let me look that up for you:" and the term (line 178);
  \<^item> \<open>Greeting\<close>: "Hi, I'm your assistant. Say 'assistant' before your request. ..."
    (line 313);
  \<^item> \<open>YesPrompt\<close>: "Yes? What can I help you with?" (line 329);
  \<^item> \<open>DidntCatchAgain\<close>: "I didn't catch that. Could you say it again?" (line 339).
\<close>

datatype message =
    DidntCatchPlease
  | Goodbye
  | OpeningYouTube
  | OpeningGoogle
  | ResultIs string
  | WhatToDefine
  | SearchingFor string
  | Definition_text string
  | CouldntFindDefinition
  | SorryOptions
  | LookingUp string
  | Greeting
  | YesPrompt
  | DidntCatchAgain

text \<open>
  The lines that the handler and the main loop print: "[Arithmetic] Couldn't evaluate"
  with the expression and the exception (line 273), "[Arithmetic] Expression contains
  unsafe characters:" with the expression (line 277), and "[Note] Wake word not present"
  (line 347).
\<close>

datatype logline =
    CouldntEvaluate string exn
  | UnsafeCharacters string
  | WakeWordNotPresent

text \<open>
  What a call does to the outside, in the order in which it happens: \<^verbatim>\<open>speak(text)\<close>,
  \<^verbatim>\<open>speak(text, say_aloud=False)\<close>, \<^verbatim>\<open>print\<close> and \<^verbatim>\<open>webbrowser.open(url)\<close>.
\<close>

datatype event =
    Speak message
  | SpeakSilently message
  | Log logline
  | OpenBrowser string

text \<open>The return value of \<^verbatim>\<open>handle_user_command\<close>: the string \<^verbatim>\<open>"exit"\<close>, or \<^verbatim>\<open>None\<close>.\<close>

datatype result = Exit | Continue

text \<open>
  The two sources of definitions (lines 140 to 171) answer over the network; the model
  takes them as functions of the term. \<open>None\<close> is Python's \<^verbatim>\<open>None\<close>.
\<close>

record lookups =
  wikipedia_summary :: "string \<Rightarrow> string option"
  duckduckgo_instant_answer :: "string \<Rightarrow> string option"

text \<open>The truth value of an optional text in an \<^verbatim>\<open>if\<close>: \<^verbatim>\<open>None\<close> and \<^verbatim>\<open>""\<close> are false.\<close>

definition truthy :: "string option \<Rightarrow> bool" where
  "truthy x = (case x of None \<Rightarrow> False | Some s \<Rightarrow> s \<noteq> [])"

text \<open>\<^verbatim>\<open>lookup_definition\<close> (lines 173 to 184): what it returns and what it says.\<close>

definition lookup_definition :: "lookups \<Rightarrow> string \<Rightarrow> string option \<times> event list" where
  "lookup_definition K term0 =
     (let term = strip term0
      in if term = [] then (None, [])
         else let wiki = wikipedia_summary K term
              in (if truthy wiki then wiki else duckduckgo_instant_answer K term,
                  [SpeakSilently (LookingUp term)]))"

text \<open>Line 223: the words that end the session, looked for anywhere in the text.\<close>

definition exit_words :: "string list" where
  "exit_words = [''exit'', ''quit'', ''stop'', ''goodbye'', ''bye'']"

text \<open>
  Lines 238 and 241: the trigger words, in the order of the test and in the order of the
  loop that removes the first one that the text starts with.
\<close>

definition triggers :: "string list" where
  "triggers = [''calculate'', ''what is'', ''evaluate'', ''compute'']"

definition triggers_removed :: "string list" where
  "triggers_removed = [''calculate'', ''evaluate'', ''compute'', ''what is'']"

fun strip_trigger :: "string list \<Rightarrow> string \<Rightarrow> string" where
  "strip_trigger [] expr = expr"
| "strip_trigger (trig # trigs) expr =
     (if startswith expr trig then strip (drop (length trig) expr)
      else strip_trigger trigs expr)"

text \<open>
  Lines 238 to 277, the arithmetic attempt: whether the handler has returned, and what it
  has said or printed. The test of line 266 comes before the call of \<^verbatim>\<open>safe_eval\<close>; any
  exception of the call is caught on line 272.
\<close>

definition arithmetic_rule :: "'f pyrt \<Rightarrow> string \<Rightarrow> bool \<times> event list" where
  "arithmetic_rule R text =
     (if is_probably_arithmetic text \<or> list_ex (startswith text) triggers
      then (let e = expr_for_eval (strip_trigger triggers_removed text)
            in if set e \<subseteq> allowed_chars
               then (case safe_eval R e of
                       Inr v \<Rightarrow> (True, [Speak (ResultIs (prettify_number R v))])
                     | Inl x \<Rightarrow> (False, [Log (CouldntEvaluate e x)]))
               else (False, [Log (UnsafeCharacters e)]))
      else (False, []))"

text \<open>Lines 280 and 283: the prefixes of a definition query, and the articles.\<close>

definition definition_prefixes :: "string list" where
  "definition_prefixes =
     [''define '', ''definition of '', ''what is '', ''what's '', ''tell me about '']"

definition articles :: "string list" where
  "articles = [''a '', ''an '', ''the '']"

text \<open>The first prefix of the list that the text starts with.\<close>

fun find_prefix :: "string list \<Rightarrow> string \<Rightarrow> string option" where
  "find_prefix [] text = None"
| "find_prefix (p # ps) text = (if startswith text p then Some p else find_prefix ps text)"

text \<open>Lines 283 to 285: the loop has no \<^verbatim>\<open>break\<close>, each article is tried in turn.\<close>

fun strip_articles :: "string list \<Rightarrow> string \<Rightarrow> string" where
  "strip_articles [] term = term"
| "strip_articles (art # arts) term =
     strip_articles arts (if startswith term art then drop (length art) term else term)"

text \<open>Line 282 and the loop after it: the term of a query that starts with \<open>prefix\<close>.\<close>

definition term_of :: "string \<Rightarrow> string \<Rightarrow> string" where
  "term_of prefix text = strip_articles articles (strip (drop (length prefix) text))"

text \<open>
  Lines 279 to 307: the definition rules and the closing apology. A query with a prefix
  returns inside the loop; a text of at most three words is looked up whole, and the text
  of line 306 is spoken when nothing was found or the text is longer.
\<close>

definition definition_rules :: "lookups \<Rightarrow> string \<Rightarrow> result \<times> event list" where
  "definition_rules K text =
     (case find_prefix definition_prefixes text of
        Some prefix \<Rightarrow>
          (let term = term_of prefix text
           in if term = [] then (Continue, [Speak WhatToDefine])
              else (case lookup_definition K term of
                      (defn, said) \<Rightarrow>
                        (Continue,
                         Speak (SearchingFor term) # said @
                         [case defn of
                            Some d \<Rightarrow> if d \<noteq> [] then Speak (Definition_text d)
                                      else Speak CouldntFindDefinition
                          | None \<Rightarrow> Speak CouldntFindDefinition])))
      | None \<Rightarrow>
          (if length (split_ws text) \<le> 3
           then (case lookup_definition K text of
                   (defn, said) \<Rightarrow>
                     (Continue,
                      said @
                      [case defn of
                         Some d \<Rightarrow> if d \<noteq> [] then Speak (Definition_text d)
                                   else Speak SorryOptions
                       | None \<Rightarrow> Speak SorryOptions]))
           else (Continue, [Speak SorryOptions])))"

text \<open>\<^verbatim>\<open>handle_user_command\<close>: the return value and the events, in order.\<close>

definition handle_user_command :: "'f pyrt \<Rightarrow> lookups \<Rightarrow> string \<Rightarrow> result \<times> event list" where
  "handle_user_command R K command_text =
     (if command_text = [] then (Continue, [Speak DidntCatchPlease])
      else let text = lower (strip command_text)
           in if list_ex (contains text) exit_words then (Exit, [Speak Goodbye])
              else if contains text ''open youtube'' \<or> text = ''youtube''
              then (Continue, [Speak OpeningYouTube, OpenBrowser ''https://www.youtube.com''])
              else if contains text ''open google'' \<or> text = ''google''
              then (Continue, [Speak OpeningGoogle, OpenBrowser ''https://www.google.com''])
              else (case arithmetic_rule R text of
                      (returned, said) \<Rightarrow>
                        if returned then (Continue, said)
                        else (case definition_rules K text of
                                (r, said') \<Rightarrow> (r, said @ said'))))"

section \<open>The main loop (\<^verbatim>\<open>main\<close>, lines 312 to 352)\<close>

definition WAKE_WORD :: string where
  "WAKE_WORD = ''assistant''"

definition MAX_RETRIES :: nat where
  "MAX_RETRIES = 2"

text \<open>\<^verbatim>\<open>spoken.split(WAKE_WORD, 1)[1]\<close>: the text after the first occurrence of the word.\<close>

fun after_first :: "string \<Rightarrow> string \<Rightarrow> string" where
  "after_first w [] = []"
| "after_first w (c # s) =
     (if startswith (c # s) w then drop (length w) (c # s) else after_first w s)"

text \<open>
  Where the loop waits for \<^verbatim>\<open>listen_from_mic()\<close>: on line 318 (\<open>Idle\<close>), or on line 332 in
  the iteration \<open>attempt\<close> of the retry loop (\<open>AwaitingFollowup attempt\<close>); \<open>Stopped\<close> is
  \<^verbatim>\<open>main\<close> after its \<^verbatim>\<open>return\<close>.
\<close>

datatype session = Idle | AwaitingFollowup nat | Stopped

text \<open>
  One call of \<^verbatim>\<open>listen_from_mic()\<close>, which returns the recognized text or \<^verbatim>\<open>None\<close>, and
  what the loop does until the next call. The lines that \<^verbatim>\<open>listen_from_mic\<close> prints
  itself, and what it says when the speech service cannot be reached (line 80), are not
  among the events; an interrupt from the keyboard is not modelled.
\<close>

fun step :: "'f pyrt \<Rightarrow> lookups \<Rightarrow> session \<Rightarrow> string option \<Rightarrow> session \<times> event list" where
  "step R K Stopped heard = (Stopped, [])"
| "step R K Idle heard =
     (case heard of
        None \<Rightarrow> (Idle, [])
      | Some spoken \<Rightarrow>
          if spoken = [] then (Idle, [])
          else if contains spoken WAKE_WORD
          then (let after = strip (after_first WAKE_WORD spoken)
                in if after = []
                   then (if 0 < MAX_RETRIES then AwaitingFollowup 0 else Idle,
                         [Speak YesPrompt])
                   else (case handle_user_command R K after of
                           (r, said) \<Rightarrow> (if r = Exit then Stopped else Idle, said)))
          else (Idle, [Log WakeWordNotPresent]))"
| "step R K (AwaitingFollowup attempt) heard =
     (case heard of
        None \<Rightarrow>
          (if attempt + 1 < MAX_RETRIES then AwaitingFollowup (attempt + 1) else Idle,
           [Speak DidntCatchAgain])
      | Some follow \<Rightarrow>
          if follow = []
          then (if attempt + 1 < MAX_RETRIES then AwaitingFollowup (attempt + 1) else Idle,
                [Speak DidntCatchAgain])
          else (case handle_user_command R K follow of
                  (r, said) \<Rightarrow> (if r = Exit then Stopped else Idle, said)))"

text \<open>The loop on a finite sequence of results of \<^verbatim>\<open>listen_from_mic()\<close>.\<close>

fun run :: "'f pyrt \<Rightarrow> lookups \<Rightarrow> session \<Rightarrow> string option list \<Rightarrow> session \<times> event list"
where
  "run R K s [] = (s, [])"
| "run R K s (heard # rest) =
     (case step R K s heard of
        (s', said) \<Rightarrow> (case run R K s' rest of (s'', said') \<Rightarrow> (s'', said @ said')))"

text \<open>\<^verbatim>\<open>main\<close>: the greeting of line 313, then the loop.\<close>

definition main :: "'f pyrt \<Rightarrow> lookups \<Rightarrow> string option list \<Rightarrow> session \<times> event list" where
  "main R K heard = (case run R K Idle heard of (s, said) \<Rightarrow> (s, Speak Greeting # said))"


section \<open>An environment for concrete runs\<close>

text \<open>
  A runtime and two sources of definitions on which the handler and the main loop can be
  run: every number that is not an integer is the one value of \<^typ>\<open>unit\<close> and prints as
  \<open>float\<close>; no text outside the alphabet parses; the first source knows the term \<open>moon\<close>,
  the second knows \<open>xyzzy\<close>.
\<close>

definition example_runtime :: "unit pyrt" where
  "example_runtime =
     \<lparr>parse_other = (\<lambda>s. None),
      float_literal = (\<lambda>s. ()),
      float_binop = (\<lambda>oper left right. Inr (FloatV ())),
      float_neg = (\<lambda>x. x),
      float_str = (\<lambda>x. ''float'')\<rparr>"

definition example_lookups :: lookups where
  "example_lookups =
     \<lparr>wikipedia_summary =
        (\<lambda>term. if term = ''moon'' then Some ''The Moon is the satellite of the Earth.''
                 else None),
      duckduckgo_instant_answer =
        (\<lambda>term. if term = ''xyzzy'' then Some ''A magic word.'' else None)\<rparr>"
text \<open>A text that \<^verbatim>\<open>strip()\<close> leaves as it is: no white space at either end.\<close>

definition stripped :: "string \<Rightarrow> bool" where
  "stripped x = (x = [] \<or> (\<not> isspace (hd x) \<and> \<not> isspace (last x)))"

text \<open>
  The lower-case letters of a text, counted: each spoken operator holds some, the symbol
  that replaces it holds none, and \<^verbatim>\<open>strip()\<close> removes none.
\<close>

definition letter :: "char \<Rightarrow> bool" where
  "letter c = (c \<in> set ''abcdefghijklmnopqrstuvwxyz'')"

definition letters :: "string \<Rightarrow> nat" where
  "letters s = length (filter letter s)"

section \<open>Properties of the string primitives\<close>

lemma last_dropWhile_eq: "dropWhile P xs \<noteq> [] \<Longrightarrow> last (dropWhile P xs) = last xs"
  by (metis last_appendR takeWhile_dropWhile_id)

lemma stripped_strip: "stripped (strip s)"
proof (cases "strip s = []")
  case True
  then show ?thesis by (simp add: stripped_def)
next
  case False
  let ?t = "dropWhile isspace s"
  let ?u = "dropWhile isspace (rev ?t)"
  from False have u: "?u \<noteq> []" by (simp add: strip_def)
  have t: "?t \<noteq> []"
  proof
    assume "?t = []"
    with u show False by simp
  qed
  have "hd (strip s) = last ?u" using u by (simp add: strip_def hd_rev)
  also have "\<dots> = last (rev ?t)" using u by (rule last_dropWhile_eq)
  also have "\<dots> = hd ?t" using t by (simp add: last_rev)
  finally have h: "\<not> isspace (hd (strip s))" using hd_dropWhile [OF t] by simp
  have "last (strip s) = hd ?u" using u by (simp add: strip_def last_rev)
  then have l: "\<not> isspace (last (strip s))" using hd_dropWhile [OF u] by simp
  from h l show ?thesis by (simp add: stripped_def)
qed

lemma dropWhile_hd_id: "xs = [] \<or> \<not> P (hd xs) \<Longrightarrow> dropWhile P xs = xs"
  by (cases xs) auto

lemma strip_stripped: "stripped x \<Longrightarrow> strip x = x"
  unfolding stripped_def strip_def
  by (cases "x = []") (simp_all add: dropWhile_hd_id hd_rev)

lemma isspace_space: "isspace CHR '' ''"
  by (simp add: isspace_def)

lemma strip_all_space: "\<forall>c \<in> set x. isspace c \<Longrightarrow> strip x = []"
  by (auto simp: strip_def dest: set_dropWhileD)

lemma strip_pad: "strip (CHR '' '' # x @ '' '') = strip x"
proof (cases "\<forall>c \<in> set x. isspace c")
  case True
  then have "\<forall>c \<in> set (CHR '' '' # x @ '' ''). isspace c"
    by (simp add: isspace_space)
  then have "strip (CHR '' '' # x @ '' '') = []"
    by (rule strip_all_space)
  with True show ?thesis by (simp add: strip_all_space)
next
  case False
  then obtain c where "c \<in> set x" "\<not> isspace c" by blast
  then have "dropWhile isspace (x @ '' '') = dropWhile isspace x @ '' ''"
    by (simp add: dropWhile_append1)
  then show ?thesis by (simp add: strip_def isspace_space)
qed



lemma replace_str_absent: "\<not> contains s (a # old) \<Longrightarrow> replace_str (a # old) new s = s"
  by (induction s) auto



lemma expr_for_eval_23_times_7: "expr_for_eval ''23 times 7'' = ''23 * 7''"
  by (simp add: expr_for_eval_def replacements_def strip_def startswith_def isspace_def)

text \<open>Replacements and the letters of a text.\<close>

lemma letter_not_space: "isspace c \<Longrightarrow> \<not> letter c"
  by (auto simp: letter_def isspace_def)

lemma letters_append: "letters (x @ y) = letters x + letters y"
  by (simp add: letters_def)

lemma letters_rev: "letters (rev x) = letters x"
  by (simp add: letters_def flip: rev_filter)

lemma letters_dropWhile: "letters (dropWhile isspace s) = letters s"
  by (induction s) (auto simp: letters_def letter_not_space)

lemma letters_strip: "letters (strip s) = letters s"
  by (simp add: strip_def letters_rev letters_dropWhile)

lemma letters_drop: "letters (drop n s) \<le> letters s"
proof -
  have "letters s = letters (take n s) + letters (drop n s)"
    by (simp flip: letters_append)
  then show ?thesis by simp
qed

lemma letters_replace_le:
  "letters new = 0 \<Longrightarrow> letters (replace_str (a # old) new s) \<le> letters s"
proof (induction s rule: length_induct)
  case (1 s)
  show ?case
  proof (cases s)
    case Nil
    then show ?thesis by simp
  next
    case (Cons c t)
    show ?thesis
    proof (cases "startswith (c # t) (a # old)")
      case True
      have "length (drop (length old) t) < length s" using Cons by simp
      with 1 have "letters (replace_str (a # old) new (drop (length old) t)) \<le> letters (drop (length old) t)"
        by blast
      also have "\<dots> \<le> letters t" by (rule letters_drop)
      also have "\<dots> \<le> letters (c # t)" by (simp add: letters_def)
      finally show ?thesis using True Cons 1(2) by (simp add: letters_append)
    next
      case False
      have "length t < length s" using Cons by simp
      with 1 have "letters (replace_str (a # old) new t) \<le> letters t" by blast
      then show ?thesis using False Cons by (simp add: letters_def)
    qed
  qed
qed

lemma letters_replace_less:
  assumes "letters new = 0" "0 < letters (a # old)"
  shows "contains s (a # old) \<Longrightarrow> letters (replace_str (a # old) new s) < letters s"
proof (induction s)
  case Nil
  then show ?case by simp
next
  case (Cons c t)
  show ?case
  proof (cases "startswith (c # t) (a # old)")
    case True
    then have "c # t = (a # old) @ drop (length (a # old)) (c # t)"
      unfolding startswith_def by (metis append_take_drop_id)
    then have "letters (c # t) = letters (a # old) + letters (drop (length old) t)"
      by (metis letters_append drop_Suc_Cons length_Cons)
    moreover have "letters (replace_str (a # old) new (drop (length old) t)) \<le> letters (drop (length old) t)"
      using assms(1) by (rule letters_replace_le)
    ultimately show ?thesis using True assms by (simp add: letters_append)
  next
    case False
    with Cons.prems have "contains t (a # old)" by simp
    then have "letters (replace_str (a # old) new t) < letters t" by (rule Cons.IH)
    then show ?thesis using False by (simp add: letters_def)
  qed
qed

lemma letters_foldl_le:
  "\<forall>(k, v) \<in> set rs. k \<noteq> [] \<and> letters v = 0 \<Longrightarrow>
     letters (foldl (\<lambda>e (k, v). replace_str k v e) p rs) \<le> letters p"
proof (induction rs arbitrary: p)
  case Nil
  then show ?case by simp
next
  case (Cons kv rs)
  obtain k v where kv: "kv = (k, v)" by (cases kv)
  with Cons.prems obtain a old where k: "k = a # old" and v: "letters v = 0"
    by (cases k) auto
  have "letters (foldl (\<lambda>e (k, v). replace_str k v e) (replace_str k v p) rs) \<le> letters (replace_str k v p)"
    using Cons.prems by (intro Cons.IH) simp
  also have "\<dots> \<le> letters p" unfolding k using v by (rule letters_replace_le)
  finally show ?case by (simp add: kv)
qed

lemma letters_foldl_less:
  "\<forall>(k, v) \<in> set rs. 0 < letters k \<and> letters v = 0 \<Longrightarrow>
   list_ex (\<lambda>(k, v). contains p k) rs \<Longrightarrow>
     letters (foldl (\<lambda>e (k, v). replace_str k v e) p rs) < letters p"
proof (induction rs arbitrary: p)
  case Nil
  then show ?case by simp
next
  case (Cons kv rs)
  obtain k v where kv: "kv = (k, v)" by (cases kv)
  with Cons.prems(1) have kpos: "0 < letters k" and v: "letters v = 0" by auto
  then obtain a old where k: "k = a # old" by (cases k) (auto simp: letters_def)
  have rest: "\<forall>(k, v) \<in> set rs. k \<noteq> [] \<and> letters v = 0"
    using Cons.prems(1) by (auto simp: letters_def)
  show ?case
  proof (cases "contains p k")
    case True
    have "letters (foldl (\<lambda>e (k, v). replace_str k v e) (replace_str k v p) rs) \<le> letters (replace_str k v p)"
      using rest by (rule letters_foldl_le)
    also have "\<dots> < letters p"
      using v kpos True unfolding k by (rule letters_replace_less)
    finally show ?thesis by (simp add: kv)
  next
    case False
    then have same: "replace_str k v p = p" unfolding k by (rule replace_str_absent)
    from False Cons.prems(2) have "list_ex (\<lambda>(k, v). contains p k) rs" by (simp add: kv)
    then have "letters (foldl (\<lambda>e (k, v). replace_str k v e) p rs) < letters p"
      using Cons.prems(1) by (intro Cons.IH) simp_all
    then show ?thesis by (simp add: kv same)
  qed
qed

lemma foldl_absent:
  "\<forall>(k, v) \<in> set rs. k \<noteq> [] \<Longrightarrow> \<not> list_ex (\<lambda>(k, v). contains p k) rs \<Longrightarrow>
     foldl (\<lambda>e (k, v). replace_str k v e) p rs = p"
proof (induction rs)
  case Nil
  then show ?case by simp
next
  case (Cons kv rs)
  obtain k v where kv: "kv = (k, v)" by (cases kv)
  with Cons.prems obtain a old where k: "k = a # old" by (cases k) auto
  from Cons.prems(2) have "\<not> contains p (a # old)" by (simp add: kv k)
  then have "replace_str k v p = p" unfolding k by (rule replace_str_absent)
  then show ?case using Cons by (simp add: kv)
qed

lemma replacements_letters: "\<forall>(k, v) \<in> set replacements. 0 < letters k \<and> letters v = 0"
  by (simp add: replacements_def letters_def letter_def)

lemma replacements_nonempty: "\<forall>(k, v) \<in> set replacements. k \<noteq> []"
  by (simp add: replacements_def)

lemma expr_for_eval_two_plus_three: "expr_for_eval ''two plus three'' = ''two + three''"
  by (simp add: expr_for_eval_def replacements_def strip_def startswith_def isspace_def)

section \<open>The spoken-operator table\<close>

text \<open>
  Claim C7, as the specification states it: the ten replacements are applied in the order
  multiplied by, divided by, to the power of, power of, plus, minus, times, over, modulo,
  mod. The source applies them in the order of its dictionary, and the two orders give
  different texts: on \<^verbatim>\<open>2 to the power of minus 3\<close> the source replaces \<^verbatim>\<open>minus\<close> first and
  returns \<^verbatim>\<open>2**- 3\<close>, where the order of the specification removes the space before
  \<^verbatim>\<open>minus\<close> first and returns \<^verbatim>\<open>2**minus 3\<close>.
\<close>

theorem replacement_order_counterexample:
  "expr_for_eval ''2 to the power of minus 3'' = ''2**- 3'' \<and>
   normalize_spec ''2 to the power of minus 3'' = ''2**minus 3'' \<and>
   expr_for_eval ''2 to the power of minus 3'' \<noteq> normalize_spec ''2 to the power of minus 3''"
  by (simp add: expr_for_eval_def normalize_spec_def replacements_spec_def replacements_def
      strip_def startswith_def isspace_def)

text \<open>
  Claim C7, amended: the text, padded with one space on each side, goes through the ten
  replacements in the order plus, minus, times, multiplied by, divided by, over, mod,
  modulo, to the power of, power of; each key carries its own leading and trailing space;
  the result is stripped.
\<close>

theorem replacement_order_of_the_source:
  "expr_for_eval e =
     strip (replace_str '' power of '' ''**''
       (replace_str '' to the power of '' ''**''
       (replace_str '' modulo '' '' % ''
       (replace_str '' mod '' '' % ''
       (replace_str '' over '' '' / ''
       (replace_str '' divided by '' '' / ''
       (replace_str '' multiplied by '' '' * ''
       (replace_str '' times '' '' * ''
       (replace_str '' minus '' '' - ''
       (replace_str '' plus '' '' + '' ('' '' @ e @ '' '')))))))))))"
  by (simp add: expr_for_eval_def replacements_def del: replace_str.simps)

text \<open>
  Claim C8, as the specification states it: applying the normalizer twice gives the same
  text as applying it once. Two operator words in a row share the space between them, and
  \<^verbatim>\<open>str.replace\<close> does not reuse it: \<^verbatim>\<open>plus plus\<close> becomes \<^verbatim>\<open>+ plus\<close>, and a second pass turns
  that into \<^verbatim>\<open>+ +\<close>.
\<close>

theorem expr_for_eval_not_idempotent:
  "expr_for_eval ''plus plus'' = ''+ plus'' \<and>
   expr_for_eval (expr_for_eval ''plus plus'') = ''+ +'' \<and>
   expr_for_eval (expr_for_eval ''plus plus'') \<noteq> expr_for_eval ''plus plus''"
  by (simp add: expr_for_eval_def replacements_def strip_def startswith_def isspace_def)

text \<open>
  Claim C8, amended: a second pass of the normalizer leaves a normalized text as it is
  exactly when none of the ten keys (a spoken operator with its leading and its trailing
  space) occurs in the normalized text padded with one space on each side. So every text
  whose operator words have all been replaced is normalized once and for all, whatever
  else it holds, and a text such as \<^verbatim>\<open>plus plus\<close>, in whose normal form \<^verbatim>\<open>+ plus\<close> a key
  is left, is changed again.
\<close>

theorem expr_for_eval_idempotent_iff:
  "expr_for_eval (expr_for_eval e) = expr_for_eval e \<longleftrightarrow>
     \<not> list_ex (\<lambda>(k, v). contains ('' '' @ expr_for_eval e @ '' '') k) replacements"
proof -
  let ?n = "expr_for_eval e"
  let ?p = "'' '' @ ?n @ '' ''"
  have st: "strip ?n = ?n"
    by (rule strip_stripped) (simp add: expr_for_eval_def stripped_strip)
  show ?thesis
  proof (cases "list_ex (\<lambda>(k, v). contains ?p k) replacements")
    case True
    have "letters (expr_for_eval ?n) = letters (foldl (\<lambda>e (k, v). replace_str k v e) ?p replacements)"
      by (simp add: expr_for_eval_def [of ?n] letters_strip)
    also have "\<dots> < letters ?p"
      using replacements_letters True by (rule letters_foldl_less)
    also have "\<dots> = letters ?n" by (simp add: letters_def letter_def)
    finally have "expr_for_eval ?n \<noteq> ?n" by auto
    with True show ?thesis by simp
  next
    case False
    with replacements_nonempty
    have "foldl (\<lambda>e (k, v). replace_str k v e) ?p replacements = ?p"
      by (rule foldl_absent)
    then have "expr_for_eval ?n = strip ?p" by (simp add: expr_for_eval_def [of ?n])
    also have "\<dots> = ?n" using strip_pad [of ?n] st by simp
    finally show ?thesis using False by simp
  qed
qed

theorem expr_for_eval_idempotent_iff_witness:
  "expr_for_eval (expr_for_eval ''two plus three'') = expr_for_eval ''two plus three'' \<and>
   \<not> list_ex (\<lambda>(k, v). contains ('' '' @ expr_for_eval ''two plus three'' @ '' '') k)
        replacements"
proof -
  have k: "\<not> list_ex (\<lambda>(k, v). contains ('' '' @ expr_for_eval ''two plus three'' @ '' '') k)
             replacements"
    by (simp add: expr_for_eval_two_plus_three replacements_def startswith_def)
  with expr_for_eval_idempotent_iff [of "''two plus three''"] show ?thesis by simp
qed

section \<open>Evaluation of concrete expressions\<close>

lemmas eval_simps =
  safe_eval_def startswith_def ast_parse_def allowed_chars_def strip_def isspace_def
  is_dec_def leading_zero_def parse_expression_def sum_op_def term_op_def int_of_dec_def
  digit_val_def allowed_operator_def apply_binop_def

lemma safe_eval_23_times_7: "safe_eval R ''23 * 7'' = Inr (IntV 161)"
  by (simp add: eval_simps)



lemma str_int_161: "str_int 161 = ''161''"
  by (simp add: str_int_def digit_char_def)

text \<open>The definition rules never end the session.\<close>

lemma definition_rules_continue: "fst (definition_rules K text) = Continue"
  by (simp add: definition_rules_def Let_def split: option.splits prod.splits)

section \<open>Arithmetic before definitions\<close>

lemma arithmetic_rule_23_times_7:
  "arithmetic_rule R ''what is 23 times 7'' = (True, [Speak (ResultIs ''161'')])"
proof -
  have t: "strip_trigger triggers_removed ''what is 23 times 7'' = ''23 times 7''"
    by (simp add: triggers_removed_def startswith_def strip_def isspace_def)
  show ?thesis
    by (simp add: arithmetic_rule_def triggers_def startswith_def t expr_for_eval_23_times_7
          safe_eval_23_times_7 prettify_number_def str_int_161 allowed_chars_def)
qed

text \<open>
  Claim C4. The handler tries the arithmetic rule before the definition prefixes: on
  \<open>what is 23 times 7\<close> it says that the result is 161 and returns, although the text
  starts with the definition prefix \<open>what is\<close>, for which the term would have been
  \<open>23 times 7\<close>.
\<close>

theorem arithmetic_before_definition:
  "handle_user_command R K ''what is 23 times 7'' = (Continue, [Speak (ResultIs ''161'')])
   \<and> find_prefix definition_prefixes ''what is 23 times 7'' = Some ''what is ''
   \<and> term_of ''what is '' ''what is 23 times 7'' = ''23 times 7''"
proof -
  have s: "strip ''what is 23 times 7'' = ''what is 23 times 7''"
    by (simp add: strip_def isspace_def)
  have l: "lower ''what is 23 times 7'' = ''what is 23 times 7''"
    by (simp add: lower_def lower_char_def lower_table_def)
  have x: "\<not> list_ex (contains ''what is 23 times 7'') exit_words"
    by (simp add: exit_words_def startswith_def)
  have o: "\<not> contains ''what is 23 times 7'' ''open youtube''"
    "\<not> contains ''what is 23 times 7'' ''open google''"
    by (simp_all add: startswith_def)
  have h: "handle_user_command R K ''what is 23 times 7'' = (Continue, [Speak (ResultIs ''161'')])"
    by (simp add: handle_user_command_def s l x o arithmetic_rule_23_times_7 del: contains.simps)
  have p: "find_prefix definition_prefixes ''what is 23 times 7'' = Some ''what is ''"
    by (simp add: definition_prefixes_def startswith_def)
  have t: "term_of ''what is '' ''what is 23 times 7'' = ''23 times 7''"
    by (simp add: term_of_def articles_def startswith_def strip_def isspace_def)
  from h p t show ?thesis by simp
qed

section \<open>Division by zero\<close>






section \<open>The wake word alone\<close>

text \<open>A listen that understood nothing, in the retry loop: line 339 is spoken each time.\<close>

lemma step_silent:
  "h = None \<or> h = Some [] \<Longrightarrow>
     step R K (AwaitingFollowup attempt) h =
       (if attempt + 1 < MAX_RETRIES then AwaitingFollowup (attempt + 1) else Idle,
        [Speak DidntCatchAgain])"
  by auto

text \<open>
  Claim C9, as the specification states it: after the wake word alone, the controller
  prompts again while retries remain and gives up silently when they are exhausted. In
  the source the \<^verbatim>\<open>else\<close> branch of line 338 speaks after every listen that understood
  nothing, the last one too: with \<^verbatim>\<open>MAX_RETRIES = 2\<close>, the second silent listen
  (\<^verbatim>\<open>attempt = 1\<close>, no retry left) is answered by "I didn't catch that. Could you say it
  again?" and the loop is back on line 318; two silent listens give two such prompts,
  not one.
\<close>

theorem last_retry_not_silent:
  "step example_runtime example_lookups (AwaitingFollowup 1) None =
     (Idle, [Speak DidntCatchAgain])
   \<and> run example_runtime example_lookups Idle [Some ''assistant'', None, None] =
     (Idle, [Speak YesPrompt, Speak DidntCatchAgain, Speak DidntCatchAgain])
   \<and> snd (run example_runtime example_lookups Idle [Some ''assistant'', None, None]) \<noteq>
     [Speak YesPrompt, Speak DidntCatchAgain]"
  by (simp add: WAKE_WORD_def MAX_RETRIES_def startswith_def strip_def)

text \<open>
  Claim C9, amended: in \<open>Idle\<close>, an utterance that holds the wake word and nothing but
  white space after it is answered by the prompt of line 329; if each of the
  \<^verbatim>\<open>MAX_RETRIES\<close> listens that follow understands nothing (\<^verbatim>\<open>None\<close> or an empty text), the
  controller says "I didn't catch that. Could you say it again?" after every one of them,
  the last included, and is then back in \<open>Idle\<close>; the loop says, prints and opens nothing
  else, so no command has been handled.
\<close>

theorem wake_word_alone_then_silence:
  assumes "spoken \<noteq> []" and "contains spoken WAKE_WORD"
    and "strip (after_first WAKE_WORD spoken) = []"
    and "length silent = MAX_RETRIES" and "\<forall>h \<in> set silent. h = None \<or> h = Some []"
  shows "run R K Idle (Some spoken # silent) =
           (Idle, Speak YesPrompt # replicate MAX_RETRIES (Speak DidntCatchAgain))"
proof -
  from assms(4) obtain a b where s: "silent = [a, b]"
    by (cases silent; cases "tl silent"; cases "tl (tl silent)") (auto simp: MAX_RETRIES_def)
  with assms(5) have ab: "a = None \<or> a = Some []" "b = None \<or> b = Some []" by auto
  show ?thesis
    using assms(1-3) step_silent [OF ab(1), of R K 0] step_silent [OF ab(2), of R K 1]
    by (simp add: s MAX_RETRIES_def numeral_2_eq_2 del: step.simps(3))
qed

theorem wake_word_alone_then_silence_witness:
  "run example_runtime example_lookups Idle [Some ''assistant'', None, Some ''''] =
     (Idle, Speak YesPrompt # replicate MAX_RETRIES (Speak DidntCatchAgain))"
proof -
  have c: "contains ''assistant'' WAKE_WORD" by (simp add: WAKE_WORD_def startswith_def)
  have a: "strip (after_first WAKE_WORD ''assistant'') = []"
    by (simp add: WAKE_WORD_def startswith_def strip_def)
  have l: "length [None, Some ''''] = MAX_RETRIES" by (simp add: MAX_RETRIES_def)
  show ?thesis
    using wake_word_alone_then_silence
      [of "''assistant''" "[None, Some '''']" example_runtime example_lookups, OF _ c a l]
    by simp
qed

section \<open>From the arithmetic attempt to the definition rules\<close>

text \<open>
  A command that is not empty and matches neither the exit words nor the two sites
  reaches the arithmetic attempt; the handler returns there when the attempt has spoken a
  result, and goes on to the definition rules with what the attempt has printed
  otherwise.
\<close>

lemma handle_after_arithmetic:
  assumes "cmd \<noteq> []" and "text = lower (strip cmd)"
    and "\<not> list_ex (contains text) exit_words"
    and "\<not> contains text ''open youtube''" and "text \<noteq> ''youtube''"
    and "\<not> contains text ''open google''" and "text \<noteq> ''google''"
  shows "handle_user_command R K cmd =
           (if fst (arithmetic_rule R text) then (Continue, snd (arithmetic_rule R text))
            else (Continue, snd (arithmetic_rule R text) @ snd (definition_rules K text)))"
proof -
  obtain r said where d: "definition_rules K text = (r, said)"
    by (cases "definition_rules K text")
  with definition_rules_continue [of K "text"] have r: "r = Continue" by simp
  obtain b ev where a: "arithmetic_rule R text = (b, ev)"
    by (cases "arithmetic_rule R text")
  show ?thesis
    using assms(1,3-7) unfolding handle_user_command_def assms(2) [symmetric] Let_def
    by (simp add: a d r del: contains.simps)
qed

text \<open>
  Claim C1. The evaluator of the specification is lines 264 to 277 of the handler: the
  test of the characters, the call of \<^verbatim>\<open>safe_eval\<close> and the \<^verbatim>\<open>except\<close> clause around it;
  \<^verbatim>\<open>safe_eval\<close> is called nowhere else. The characters of the normalized expression are
  tested on line 266, before the call on line 268: when the expression holds a character
  outside \<^verbatim>\<open>0123456789+-*/(). %\<close>, the attempt prints that the expression contains unsafe
  characters and is over. Nothing is parsed and nothing is evaluated: what the handler
  does is the same for every runtime \<open>R\<close>, the printed line followed by the definition
  rules.
\<close>

theorem unsafe_characters_not_evaluated:
  assumes "cmd \<noteq> []" and "text = lower (strip cmd)"
    and "\<not> list_ex (contains text) exit_words"
    and "\<not> contains text ''open youtube''" and "text \<noteq> ''youtube''"
    and "\<not> contains text ''open google''" and "text \<noteq> ''google''"
    and "is_probably_arithmetic text \<or> list_ex (startswith text) triggers"
    and "e = expr_for_eval (strip_trigger triggers_removed text)"
    and "\<not> set e \<subseteq> allowed_chars"
  shows "arithmetic_rule R text = (False, [Log (UnsafeCharacters e)])
         \<and> handle_user_command R K cmd =
             (Continue, Log (UnsafeCharacters e) # snd (definition_rules K text))"
proof -
  have a: "arithmetic_rule R text = (False, [Log (UnsafeCharacters e)])"
    using assms(8,10) unfolding assms(9) arithmetic_rule_def Let_def by simp
  with handle_after_arithmetic [OF assms(1-7), of R K] show ?thesis by simp
qed

theorem unsafe_characters_not_evaluated_witness:
  "arithmetic_rule example_runtime ''calculate 2 + 2 apples'' =
     (False, [Log (UnsafeCharacters ''2 + 2 apples'')])
   \<and> handle_user_command example_runtime example_lookups ''Calculate 2 + 2 apples'' =
       (Continue, [Log (UnsafeCharacters ''2 + 2 apples''), Speak SorryOptions])"
proof -
  let ?t = "''calculate 2 + 2 apples''"
  have t: "?t = lower (strip ''Calculate 2 + 2 apples'')"
    by (simp add: strip_def isspace_def lower_def lower_char_def lower_table_def)
  have x: "\<not> list_ex (contains ?t) exit_words"
    by (simp add: exit_words_def startswith_def)
  have o: "\<not> contains ?t ''open youtube''" "\<not> contains ?t ''open google''"
    by (simp_all add: startswith_def)
  have p: "is_probably_arithmetic ?t \<or> list_ex (startswith ?t) triggers"
    by (simp add: triggers_def startswith_def)
  have e: "''2 + 2 apples'' = expr_for_eval (strip_trigger triggers_removed ?t)"
    by (simp add: triggers_removed_def expr_for_eval_def replacements_def startswith_def
          strip_def isspace_def)
  have g: "\<not> set ''2 + 2 apples'' \<subseteq> allowed_chars"
    by (simp add: allowed_chars_def)
  have d: "definition_rules example_lookups ?t = (Continue, [Speak SorryOptions])"
    by (simp add: definition_rules_def definition_prefixes_def startswith_def split_ws_def
          isspace_def)
  show ?thesis
    using unsafe_characters_not_evaluated
      [of "''Calculate 2 + 2 apples''" ?t "''2 + 2 apples''" example_runtime example_lookups,
       OF _ t x o(1) _ o(2) _ p e g]
    by (simp add: d)
qed

text \<open>
  Claim C5. A text that the arithmetic heuristic matches and whose expression holds an
  unsafe character, or makes \<^verbatim>\<open>safe_eval\<close> raise an exception \<open>x\<close>, is handed on to the
  definition rules: the handler prints the failure and continues with line 280. On
  \<open>what is the moon\<close> the definition rules find the prefix \<open>what is\<close> and, with the article
  removed, the term \<open>moon\<close>.
\<close>

theorem failed_arithmetic_falls_through:
  assumes "cmd \<noteq> []" and "text = lower (strip cmd)"
    and "\<not> list_ex (contains text) exit_words"
    and "\<not> contains text ''open youtube''" and "text \<noteq> ''youtube''"
    and "\<not> contains text ''open google''" and "text \<noteq> ''google''"
    and "is_probably_arithmetic text \<or> list_ex (startswith text) triggers"
    and "e = expr_for_eval (strip_trigger triggers_removed text)"
    and "\<not> set e \<subseteq> allowed_chars \<or> safe_eval R e = Inl x"
  shows "handle_user_command R K cmd =
           (Continue,
            Log (if set e \<subseteq> allowed_chars then CouldntEvaluate e x else UnsafeCharacters e)
            # snd (definition_rules K text))
         \<and> find_prefix definition_prefixes ''what is the moon'' = Some ''what is ''
         \<and> term_of ''what is '' ''what is the moon'' = ''moon''"
proof -
  have p: "find_prefix definition_prefixes ''what is the moon'' = Some ''what is ''"
    by (simp add: definition_prefixes_def startswith_def)
  have m: "term_of ''what is '' ''what is the moon'' = ''moon''"
    by (simp add: term_of_def articles_def startswith_def strip_def isspace_def)
  have a: "arithmetic_rule R text =
             (False, [Log (if set e \<subseteq> allowed_chars then CouldntEvaluate e x else UnsafeCharacters e)])"
    using assms(8,10) unfolding assms(9) arithmetic_rule_def Let_def by auto
  with handle_after_arithmetic [OF assms(1-7), of R K] p m show ?thesis by simp
qed

theorem failed_arithmetic_falls_through_witness:
  "handle_user_command example_runtime example_lookups ''what is the moon'' =
     (Continue,
      [Log (UnsafeCharacters ''the moon''), Speak (SearchingFor ''moon''),
       SpeakSilently (LookingUp ''moon''),
       Speak (Definition_text ''The Moon is the satellite of the Earth.'')])"
proof -
  let ?t = "''what is the moon''"
  have t: "?t = lower (strip ?t)"
    by (simp add: strip_def isspace_def lower_def lower_char_def lower_table_def)
  have x: "\<not> list_ex (contains ?t) exit_words"
    by (simp add: exit_words_def startswith_def)
  have o: "\<not> contains ?t ''open youtube''" "\<not> contains ?t ''open google''"
    by (simp_all add: startswith_def)
  have p: "is_probably_arithmetic ?t \<or> list_ex (startswith ?t) triggers"
    by (simp add: triggers_def startswith_def)
  have e: "''the moon'' = expr_for_eval (strip_trigger triggers_removed ?t)"
    by (simp add: triggers_removed_def expr_for_eval_def replacements_def startswith_def
          strip_def isspace_def)
  have g: "\<not> set ''the moon'' \<subseteq> allowed_chars \<or>
           safe_eval example_runtime ''the moon'' = Inl OtherException"
    by (simp add: allowed_chars_def)
  have m: "term_of ''what is '' ?t = ''moon''"
    by (simp add: term_of_def articles_def startswith_def strip_def isspace_def)
  have d: "definition_rules example_lookups ?t =
             (Continue,
              [Speak (SearchingFor ''moon''), SpeakSilently (LookingUp ''moon''),
               Speak (Definition_text ''The Moon is the satellite of the Earth.'')])"
    by (simp add: definition_rules_def definition_prefixes_def m lookup_definition_def
          example_lookups_def truthy_def startswith_def strip_def isspace_def Let_def)
  show ?thesis
    using failed_arithmetic_falls_through
      [of ?t ?t "''the moon''" example_runtime OtherException example_lookups,
       OF _ t x o(1) _ o(2) _ p e g]
    by (simp add: d allowed_chars_def)
qed



section \<open>The term of a definition query\<close>

text \<open>
  The text that the rules see is stripped and lower-cased (line 220); lower-casing makes
  no white space. Every definition prefix and every article ends in a space, so a
  stripped text that starts with one of them goes on after it, and what is left ends in
  the last character of the text, which is not white space.
\<close>

lemma lower_table_no_space: "\<forall>(c, l) \<in> set lower_table. \<not> isspace c \<and> \<not> isspace l"
  by (simp add: lower_table_def isspace_def)

lemma isspace_lower_char: "isspace (lower_char c) = isspace c"
proof (cases "map_of lower_table c")
  case None
  then show ?thesis by (simp add: lower_char_def)
next
  case (Some l)
  then have "(c, l) \<in> set lower_table" by (rule map_of_SomeD)
  with lower_table_no_space have "\<not> isspace c \<and> \<not> isspace l" by blast
  with Some show ?thesis by (simp add: lower_char_def)
qed

lemma stripped_lower: "stripped x \<Longrightarrow> stripped (lower x)"
  by (cases "x = []") (simp_all add: stripped_def lower_def hd_map last_map isspace_lower_char)

lemma find_prefix_Some: "find_prefix ps t = Some p \<Longrightarrow> p \<in> set ps \<and> startswith t p"
  by (induction ps) (auto split: if_splits)

lemma drop_spaced_prefix:
  assumes "t \<noteq> []" "\<not> isspace (last t)" "startswith t a" "a \<noteq> []" "isspace (last a)"
  shows "drop (length a) t \<noteq> [] \<and> last (drop (length a) t) = last t"
proof -
  have ta: "take (length a) t = a" using assms(3) by (simp add: startswith_def)
  have ne: "drop (length a) t \<noteq> []"
  proof
    assume "drop (length a) t = []"
    then have "t = a" using ta by (metis append_Nil2 append_take_drop_id)
    with assms(2,5) show False by simp
  qed
  then have "length a < length t" by simp
  then have "last (drop (length a) t) = last t" by (rule last_drop)
  with ne show ?thesis by simp
qed

lemma strip_keeps_last:
  assumes "t \<noteq> []" "\<not> isspace (last t)"
  shows "strip t \<noteq> [] \<and> last (strip t) = last t"
proof -
  let ?d = "dropWhile isspace t"
  have "last t \<in> set t" using assms(1) by simp
  with assms(2) have d: "?d \<noteq> []" by (auto simp: dropWhile_eq_Nil_conv)
  then have l: "last ?d = last t" by (rule last_dropWhile_eq)
  have "hd (rev ?d) = last ?d" using d by (simp add: hd_rev)
  with l assms(2) have "dropWhile isspace (rev ?d) = rev ?d"
    by (intro dropWhile_hd_id) simp
  then have "strip t = ?d" by (simp add: strip_def)
  with d l show ?thesis by simp
qed

lemma strip_articles_keeps_last:
  "\<forall>a \<in> set arts. a \<noteq> [] \<and> isspace (last a) \<Longrightarrow> t \<noteq> [] \<Longrightarrow> \<not> isspace (last t) \<Longrightarrow>
     strip_articles arts t \<noteq> [] \<and> last (strip_articles arts t) = last t"
proof (induction arts arbitrary: t)
  case Nil
  then show ?case by simp
next
  case (Cons a arts)
  show ?case
  proof (cases "startswith t a")
    case True
    from Cons.prems have a: "a \<noteq> []" "isspace (last a)" by auto
    from drop_spaced_prefix [OF Cons.prems(2,3) True a]
    have d: "drop (length a) t \<noteq> []" "last (drop (length a) t) = last t" by auto
    from Cons.prems(1) have "\<forall>a \<in> set arts. a \<noteq> [] \<and> isspace (last a)" by simp
    from Cons.IH [OF this d(1)] d(2) Cons.prems(3) True show ?thesis by simp
  next
    case False
    from Cons.prems(1) have "\<forall>a \<in> set arts. a \<noteq> [] \<and> isspace (last a)" by simp
    from Cons.IH [OF this Cons.prems(2,3)] False show ?thesis by simp
  qed
qed

lemma definition_prefixes_spaced: "\<forall>p \<in> set definition_prefixes. p \<noteq> [] \<and> isspace (last p)"
  by (simp add: definition_prefixes_def isspace_def)

lemma articles_spaced: "\<forall>a \<in> set articles. a \<noteq> [] \<and> isspace (last a)"
  by (simp add: articles_def isspace_def)

lemma term_of_nonempty:
  assumes "stripped t" "find_prefix definition_prefixes t = Some p"
  shows "term_of p t \<noteq> []"
proof -
  from find_prefix_Some [OF assms(2)] definition_prefixes_spaced
  have p: "startswith t p" "p \<noteq> []" "isspace (last p)" by auto
  from p(1,2) have ne: "t \<noteq> []" by (auto simp: startswith_def)
  with assms(1) have l: "\<not> isspace (last t)" by (simp add: stripped_def)
  from drop_spaced_prefix [OF ne l p]
  have d: "drop (length p) t \<noteq> []" "\<not> isspace (last (drop (length p) t))" using l by auto
  from strip_keeps_last [OF d]
  have s: "strip (drop (length p) t) \<noteq> []" "\<not> isspace (last (strip (drop (length p) t)))"
    using d(2) by auto
  from strip_articles_keeps_last [OF articles_spaced s] show ?thesis by (simp add: term_of_def)
qed

lemma arithmetic_rule_says: "Speak WhatToDefine \<notin> set (snd (arithmetic_rule R t))"
  by (simp add: arithmetic_rule_def Let_def split: sum.splits)

lemma lookup_definition_says: "Speak WhatToDefine \<notin> set (snd (lookup_definition K t))"
  by (simp add: lookup_definition_def Let_def)

lemma definition_rules_says:
  assumes "stripped t"
  shows "Speak WhatToDefine \<notin> set (snd (definition_rules K t))"
proof (cases "find_prefix definition_prefixes t")
  case None
  then show ?thesis
    using lookup_definition_says [of K t]
    by (auto simp: definition_rules_def split: prod.splits option.splits)
next
  case (Some p)
  from term_of_nonempty [OF assms Some] have "term_of p t \<noteq> []" .
  then show ?thesis
    using Some lookup_definition_says [of K "term_of p t"]
    by (auto simp: definition_rules_def Let_def split: prod.splits option.splits)
qed

text \<open>
  Claim C10. When a definition prefix matches, the term that is left after the prefix and
  the articles is never empty, so that the branch of line 286, which asks "What would you
  like me to define?", is never taken: the handler says this on no command at all.
\<close>

theorem empty_term_unreachable:
  "(find_prefix definition_prefixes (lower (strip cmd)) = Some prefix \<longrightarrow>
      term_of prefix (lower (strip cmd)) \<noteq> [])
   \<and> Speak WhatToDefine \<notin> set (snd (handle_user_command R K cmd))"
proof -
  let ?t = "lower (strip cmd)"
  have st: "stripped ?t" by (rule stripped_lower) (rule stripped_strip)
  have a: "Speak WhatToDefine \<notin> set (snd (arithmetic_rule R ?t))" by (rule arithmetic_rule_says)
  have d: "Speak WhatToDefine \<notin> set (snd (definition_rules K ?t))"
    using st by (rule definition_rules_says)
  have h: "Speak WhatToDefine \<notin> set (snd (handle_user_command R K cmd))"
    using a d unfolding handle_user_command_def Let_def
    by (auto split: prod.splits simp del: contains.simps)
  from st h show ?thesis by (auto dest: term_of_nonempty)
qed

theorem empty_term_unreachable_witness:
  "find_prefix definition_prefixes (lower (strip ''Define recursion'')) = Some ''define ''
   \<and> term_of ''define '' (lower (strip ''Define recursion'')) = ''recursion''
   \<and> Speak WhatToDefine \<notin>
       set (snd (handle_user_command example_runtime example_lookups ''Define recursion''))"
proof -
  have t: "lower (strip ''Define recursion'') = ''define recursion''"
    by (simp add: strip_def isspace_def lower_def lower_char_def lower_table_def)
  have p: "find_prefix definition_prefixes ''define recursion'' = Some ''define ''"
    by (simp add: definition_prefixes_def startswith_def)
  have m: "term_of ''define '' ''define recursion'' = ''recursion''"
    by (simp add: term_of_def articles_def startswith_def strip_def isspace_def)
  show ?thesis
    using empty_term_unreachable
      [of "''Define recursion''" "''define ''" example_runtime example_lookups]
    by (simp add: t p m)
qed
end
